theory Spec2Isabelle
  imports Complex_Main
begin

section \<open>Python values\<close>

text \<open>
  The crawler of \<^verbatim>\<open>main.py\<close> handles documents produced by Python's \<^verbatim>\<open>json\<close> module.
  A document is a \<open>json\<close> value; Python's \<^verbatim>\<open>None\<close> is \<open>JNull\<close>.  A number with a fraction
  or an exponent is a Python float: \<open>JFloat\<close> carries the text that Python prints for it.
  Python strings are modelled by \<open>string\<close>, read as sequences of code points below 256.
  The keys of a \<open>JObj\<close> are meant to be distinct, as the keys of a Python dict are.
\<close>

datatype json =
    JNull
  | JBool bool
  | JInt int
  | JFloat string
  | JStr string
  | JArr "json list"
  | JObj "(string \<times> json) list"

datatype error =
    KeyError
  | TypeError
  | AttributeError
  | JSONDecodeError
  | RuntimeError
  | RecursionError
  | OverflowError
  | ProgrammingError

text \<open>Truth value of a Python object, as \<^verbatim>\<open>if x\<close> and \<^verbatim>\<open>not x\<close> test it.\<close>

fun truthy :: "json \<Rightarrow> bool" where
  "truthy JNull = False"
| "truthy (JBool b) = b"
| "truthy (JInt i) = (i \<noteq> 0)"
| "truthy (JFloat r) = (r \<noteq> ''0.0'' \<and> r \<noteq> ''-0.0'')"
| "truthy (JStr s) = (s \<noteq> [])"
| "truthy (JArr xs) = (xs \<noteq> [])"
| "truthy (JObj kvs) = (kvs \<noteq> [])"

text \<open>\<^verbatim>\<open>d.get(k, dflt)\<close>: only a dict has the method.\<close>

definition dict_get :: "json \<Rightarrow> string \<Rightarrow> json \<Rightarrow> error + json" where
  "dict_get d k dflt =
     (case d of
        JObj kvs \<Rightarrow> Inr (case map_of kvs k of Some v \<Rightarrow> v | None \<Rightarrow> dflt)
      | _ \<Rightarrow> Inl AttributeError)"

text \<open>\<^verbatim>\<open>d[k]\<close> with a string key.\<close>

definition subscript :: "json \<Rightarrow> string \<Rightarrow> error + json" where
  "subscript d k =
     (case d of
        JObj kvs \<Rightarrow> (case map_of kvs k of Some v \<Rightarrow> Inr v | None \<Rightarrow> Inl KeyError)
      | _ \<Rightarrow> Inl TypeError)"

text \<open>The elements a \<^verbatim>\<open>for\<close> loop visits: a dict yields its keys, a string its characters.\<close>

definition py_iter :: "json \<Rightarrow> error + json list" where
  "py_iter v =
     (case v of
        JArr xs \<Rightarrow> Inr xs
      | JObj kvs \<Rightarrow> Inr (map (\<lambda>kv. JStr (fst kv)) kvs)
      | JStr s \<Rightarrow> Inr (map (\<lambda>c. JStr [c]) s)
      | _ \<Rightarrow> Inl TypeError)"

subsection \<open>Strings\<close>

definition starts_with :: "string \<Rightarrow> string \<Rightarrow> bool" where
  "starts_with p s = (take (length p) s = p)"

text \<open>\<^verbatim>\<open>needle in haystack\<close> for two strings.\<close>

fun contains :: "string \<Rightarrow> string \<Rightarrow> bool" where
  "contains needle [] = (needle = [])"
| "contains needle (c # cs) = (starts_with needle (c # cs) \<or> contains needle cs)"

text \<open>\<^verbatim>\<open>s.split(sep)\<close> for a separator of one character.\<close>

fun split_on :: "char \<Rightarrow> string \<Rightarrow> string list" where
  "split_on sep [] = [[]]"
| "split_on sep (c # cs) =
     (if c = sep then [] # split_on sep cs
      else (case split_on sep cs of
              p # ps \<Rightarrow> (c # p) # ps
            | [] \<Rightarrow> [[c]]))"

text \<open>
  \<^verbatim>\<open>re.search(name + "([^;]+)", s)\<close>: the leftmost place where \<open>name\<close> is followed by at
  least one character other than a semicolon; the group is the longest such run.
\<close>

fun re_search_group :: "string \<Rightarrow> string \<Rightarrow> string option" where
  "re_search_group name [] = None"
| "re_search_group name (c # cs) =
     (if starts_with name (c # cs)
         \<and> takeWhile (\<lambda>d. d \<noteq> CHR '';'') (drop (length name) (c # cs)) \<noteq> []
      then Some (takeWhile (\<lambda>d. d \<noteq> CHR '';'') (drop (length name) (c # cs)))
      else re_search_group name cs)"

text \<open>\<^verbatim>\<open>s.strip()\<close>: the white space of Python among the code points below 256.\<close>

definition is_space :: "char \<Rightarrow> bool" where
  "is_space c = ((of_char c :: nat) \<in> {9, 10, 11, 12, 13, 28, 29, 30, 31, 32, 133, 160})"

definition strip :: "string \<Rightarrow> string" where
  "strip s = rev (dropWhile is_space (rev (dropWhile is_space s)))"

text \<open>
  Reading a file in text mode turns \<^verbatim>\<open>\r\n\<close> and a lone \<^verbatim>\<open>\r\<close> into \<^verbatim>\<open>\n\<close>.  Writing
  is taken to leave the text as it is, as it does where the line separator is \<^verbatim>\<open>\n\<close>.
\<close>

fun universal_newlines :: "string \<Rightarrow> string" where
  "universal_newlines [] = []"
| "universal_newlines [c] = [if c = CHR 0x0D then CHR 0x0A else c]"
| "universal_newlines (c # d # ds) =
     (if c = CHR 0x0D \<and> d = CHR 0x0A then CHR 0x0A # universal_newlines ds
      else (if c = CHR 0x0D then CHR 0x0A else c) # universal_newlines (d # ds))"

subsection \<open>\<^verbatim>\<open>json.dumps\<close>\<close>

fun digits :: "nat \<Rightarrow> string" where
  "digits n =
     (if n < 10 then [char_of (48 + n)]
      else digits (n div 10) @ [char_of (48 + n mod 10)])"

declare digits.simps [simp del]

definition str_int :: "int \<Rightarrow> string" where
  "str_int i = (if i < 0 then CHR ''-'' # digits (nat (- i)) else digits (nat i))"

definition hex_digit :: "nat \<Rightarrow> char" where
  "hex_digit n = (if n < 10 then char_of (48 + n) else char_of (87 + n))"

definition escape_char :: "char \<Rightarrow> string" where
  "escape_char c =
     (if c = CHR 0x5C then [CHR 0x5C, CHR 0x5C]
      else if c = CHR 0x22 then [CHR 0x5C, CHR 0x22]
      else if c = CHR 0x08 then [CHR 0x5C, CHR ''b'']
      else if c = CHR 0x0C then [CHR 0x5C, CHR ''f'']
      else if c = CHR 0x0A then [CHR 0x5C, CHR ''n'']
      else if c = CHR 0x0D then [CHR 0x5C, CHR ''r'']
      else if c = CHR 0x09 then [CHR 0x5C, CHR ''t'']
      else if 32 \<le> (of_char c :: nat) \<and> (of_char c :: nat) \<le> 126 then [c]
      else [CHR 0x5C, CHR ''u'', CHR ''0'', CHR ''0'',
            hex_digit ((of_char c :: nat) div 16), hex_digit ((of_char c :: nat) mod 16)])"

definition dumps_str :: "string \<Rightarrow> string" where
  "dumps_str s = [CHR 0x22] @ concat (map escape_char s) @ [CHR 0x22]"

fun join :: "string \<Rightarrow> string list \<Rightarrow> string" where
  "join sep [] = []"
| "join sep [x] = x"
| "join sep (x # y # ys) = x @ sep @ join sep (y # ys)"

fun json_dumps :: "json \<Rightarrow> string" where
  "json_dumps JNull = ''null''"
| "json_dumps (JBool b) = (if b then ''true'' else ''false'')"
| "json_dumps (JInt i) = str_int i"
| "json_dumps (JFloat r) = r"
| "json_dumps (JStr s) = dumps_str s"
| "json_dumps (JArr xs) = ''['' @ join '', '' (map json_dumps xs) @ '']''"
| "json_dumps (JObj kvs) =
     ''{'' @ join '', ''
        (map (\<lambda>kv. dumps_str (fst kv) @ '': '' @ json_dumps (snd kv)) kvs) @ ''}''"

section \<open>The world the crawler acts on\<close>

text \<open>
  A file is missing, present but unreadable (reading or parsing it raises), or holds a
  value.  The cookie file is written by \<^verbatim>\<open>json.dump\<close> and read by \<^verbatim>\<open>json.load\<close>; it is
  represented by the document it holds.  The token file holds text.

  The jobs table is kept twice: as the connection sees it, and as it was at the last
  commit.  The trace records, in order, the requests sent, the browser launches, the
  writes of the two credential files, the rows inserted, the commits and the pauses
  between pages.
\<close>

datatype 'a disk_file = Missing | Corrupt | Content 'a

datatype sqlv = Null | SInt int | SReal string | SText string

type_synonym job_row = "sqlv list"

datatype request =
    SearchRequest int string string
  | DetailRequest json string string

record response =
  status_code :: nat
  body :: "json option"

datatype event =
    Sent request
  | BrowserLaunched
  | CookieSaved string string
  | XsrfSaved string
  | Executed job_row
  | Committed
  | Slept nat

record world =
  cookie_file :: "json disk_file"
  xsrf_file :: "string disk_file"
  requests_sent :: nat
  browser_launches :: nat
  jobs_table :: "job_row list"
  durable_jobs :: "job_row list"
  trace :: "event list"

text \<open>
  What lies outside the program: the upstream service answers the \<open>n\<close>-th HTTP request
  of a run, and the \<open>n\<close>-th browser launch captures a performance log.  An entry of the
  log stands for \<^verbatim>\<open>json.loads(entry["message"])\<close>: the parsed document, or \<open>None\<close> when
  that expression raises.  \<open>body\<close> is what \<^verbatim>\<open>response.json()\<close> parses, \<open>None\<close> when the
  body is not JSON.  Failures of the transport and of the browser driver are not modelled.
\<close>

type_synonym log_entry = "json option"

record env =
  http :: "nat \<Rightarrow> request \<Rightarrow> response"
  browser :: "nat \<Rightarrow> log_entry list"

definition log_event :: "event \<Rightarrow> world \<Rightarrow> world" where
  "log_event e w = w\<lparr>trace := trace w @ [e]\<rparr>"

definition send :: "env \<Rightarrow> request \<Rightarrow> world \<Rightarrow> response \<times> world" where
  "send env req w =
     (http env (requests_sent w) req,
      log_event (Sent req) (w\<lparr>requests_sent := Suc (requests_sent w)\<rparr>))"

text \<open>\<^verbatim>\<open>response.ok\<close> of the requests library: no client or server error status.\<close>

definition ok :: "response \<Rightarrow> bool" where
  "ok r = (\<not> (400 \<le> status_code r \<and> status_code r < 600))"

definition response_json :: "response \<Rightarrow> error + json" where
  "response_json r = (case body r of None \<Rightarrow> Inl JSONDecodeError | Some j \<Rightarrow> Inr j)"

section \<open>Cookie management\<close>

definition load_stored_cookie :: "world \<Rightarrow> json" where
  "load_stored_cookie w =
     (case cookie_file w of
        Missing \<Rightarrow> JNull
      | Corrupt \<Rightarrow> JNull
      | Content doc \<Rightarrow> (case dict_get doc ''Cookie'' JNull of Inl e \<Rightarrow> JNull | Inr v \<Rightarrow> v))"

definition save_cookie :: "string \<Rightarrow> string \<Rightarrow> world \<Rightarrow> world" where
  "save_cookie cookie_value xsrf_token w =
     log_event (CookieSaved cookie_value xsrf_token)
       (w\<lparr>cookie_file :=
            Content (JObj [(''Cookie'', JStr (cookie_value @ ''; XSRF-TOKEN='' @ xsrf_token))])\<rparr>)"

definition load_xsrf_token :: "world \<Rightarrow> json" where
  "load_xsrf_token w =
     (case xsrf_file w of
        Missing \<Rightarrow> JNull
      | Corrupt \<Rightarrow> JNull
      | Content text \<Rightarrow> JStr (strip (universal_newlines text)))"

definition save_xsrf_token :: "string \<Rightarrow> world \<Rightarrow> world" where
  "save_xsrf_token token w =
     log_event (XsrfSaved token) (w\<lparr>xsrf_file := Content (strip token)\<rparr>)"

text \<open>
  The start of \<^verbatim>\<open>main\<close>: both slots are read, and the stored credential is used only
  when neither value is falsy.
\<close>

definition stored_credential :: "world \<Rightarrow> (json \<times> json) option" where
  "stored_credential w =
     (let cookie = load_stored_cookie w; xsrf_token = load_xsrf_token w
      in if truthy cookie \<and> truthy xsrf_token then Some (cookie, xsrf_token) else None)"

section \<open>Extraction of the cookies from the performance log\<close>

definition session_name :: string where
  "session_name = ''EURES_JVSE_SESSIONID=''"

definition xsrf_name :: string where
  "xsrf_name = ''XSRF-TOKEN=''"

text \<open>\<^verbatim>\<open>name in c\<close> for an arbitrary \<open>c\<close>: substring, list membership or dict key.\<close>

definition py_in :: "string \<Rightarrow> json \<Rightarrow> error + bool" where
  "py_in name c =
     (case c of
        JStr s \<Rightarrow> Inr (contains name s)
      | JArr xs \<Rightarrow> Inr (JStr name \<in> set xs)
      | JObj kvs \<Rightarrow> Inr (name \<in> set (map fst kvs))
      | _ \<Rightarrow> Inl TypeError)"

text \<open>
  \<^verbatim>\<open>if name in c: v = re.search(name + "([^;]+)", c).group(1)\<close>.  \<open>Inr None\<close>: the test
  is false and the variable is left alone; \<open>Inr (Some g)\<close>: it is assigned \<open>g\<close>.
\<close>

definition match_cookie :: "string \<Rightarrow> json \<Rightarrow> error + string option" where
  "match_cookie name c =
     (case py_in name c of
        Inl e \<Rightarrow> Inl e
      | Inr False \<Rightarrow> Inr None
      | Inr True \<Rightarrow>
          (case c of
             JStr s \<Rightarrow>
               (case re_search_group name s of
                  None \<Rightarrow> Inl AttributeError
                | Some g \<Rightarrow> Inr (Some g))
           | _ \<Rightarrow> Inl TypeError))"

type_synonym found = "string option \<times> string option"

text \<open>
  The inner loop over the cookies of one entry.  An exception leaves the loop with the
  assignments made so far, as Python's local variables keep them.
\<close>

fun scan_cookies :: "json list \<Rightarrow> found \<Rightarrow> error option \<times> found" where
  "scan_cookies [] st = (None, st)"
| "scan_cookies (c # cs) (session_id, xsrf_token) =
     (case match_cookie session_name c of
        Inl e \<Rightarrow> (Some e, (session_id, xsrf_token))
      | Inr m \<Rightarrow>
          (let session_id' = (case m of Some g \<Rightarrow> Some g | None \<Rightarrow> session_id)
           in case match_cookie xsrf_name c of
                Inl e \<Rightarrow> (Some e, (session_id', xsrf_token))
              | Inr m' \<Rightarrow>
                  scan_cookies cs
                    (session_id', (case m' of Some g \<Rightarrow> Some g | None \<Rightarrow> xsrf_token))))"

definition cookie_list :: "json \<Rightarrow> error + json list" where
  "cookie_list set_cookie =
     (case set_cookie of
        JStr s \<Rightarrow> Inr (map JStr (split_on (CHR 0x0A) s))
      | _ \<Rightarrow> py_iter set_cookie)"

definition truthy_opt :: "string option \<Rightarrow> bool" where
  "truthy_opt v = (case v of None \<Rightarrow> False | Some s \<Rightarrow> s \<noteq> [])"

text \<open>
  The body of the outer loop for one entry: the new values of the two variables, and
  whether the loop is left by \<^verbatim>\<open>break\<close>.  Every exception is caught and continues with
  the next entry.
\<close>

definition scan_entry :: "log_entry \<Rightarrow> found \<Rightarrow> found \<times> bool" where
  "scan_entry entry st =
     (case entry of
        None \<Rightarrow> (st, False)
      | Some doc \<Rightarrow>
     (case subscript doc ''message'' of
        Inl e \<Rightarrow> (st, False)
      | Inr msg \<Rightarrow>
     (case dict_get msg ''method'' JNull of
        Inl e \<Rightarrow> (st, False)
      | Inr method \<Rightarrow>
     if method \<noteq> JStr ''Network.responseReceivedExtraInfo'' then (st, False)
     else
     (case dict_get msg ''params'' (JObj []) of
        Inl e \<Rightarrow> (st, False)
      | Inr params \<Rightarrow>
     (case dict_get params ''headers'' (JObj []) of
        Inl e \<Rightarrow> (st, False)
      | Inr headers \<Rightarrow>
     (case dict_get headers ''Set-Cookie'' JNull of
        Inl e \<Rightarrow> (st, False)
      | Inr set_cookie \<Rightarrow>
     if \<not> truthy set_cookie then (st, False)
     else
     (case cookie_list set_cookie of
        Inl e \<Rightarrow> (st, False)
      | Inr cookies \<Rightarrow>
     (case scan_cookies cookies st of
        (Some e, st') \<Rightarrow> (st', False)
      | (None, (session_id, xsrf_token)) \<Rightarrow>
          ((session_id, xsrf_token), truthy_opt session_id \<and> truthy_opt xsrf_token)))))))))"

fun scan_logs :: "log_entry list \<Rightarrow> found \<Rightarrow> found" where
  "scan_logs [] st = st"
| "scan_logs (entry # logs) st =
     (case scan_entry entry st of
        (st', stop) \<Rightarrow> if stop then st' else scan_logs logs st')"

definition extract_cookies_from_logs :: "log_entry list \<Rightarrow> error + (string \<times> string)" where
  "extract_cookies_from_logs logs =
     (case scan_logs logs (None, None) of
        (Some session_id, Some xsrf_token) \<Rightarrow>
          if session_id = [] then Inl RuntimeError
          else if xsrf_token = [] then Inl RuntimeError
          else Inr (''EURES_JVSE_SESSIONID='' @ session_id, xsrf_token)
      | _ \<Rightarrow> Inl RuntimeError)"

definition obtain_cookies_via_selenium ::
    "env \<Rightarrow> world \<Rightarrow> (error + (string \<times> string)) \<times> world" where
  "obtain_cookies_via_selenium env w =
     (extract_cookies_from_logs (browser env (browser_launches w)),
      log_event BrowserLaunched (w\<lparr>browser_launches := Suc (browser_launches w)\<rparr>))"

definition reload_cookie :: "env \<Rightarrow> world \<Rightarrow> (error + (string \<times> string)) \<times> world" where
  "reload_cookie env w =
     (case obtain_cookies_via_selenium env w of
        (Inl e, w1) \<Rightarrow> (Inl e, w1)
      | (Inr (cookie_header, xsrf_token), w1) \<Rightarrow>
          (Inr (cookie_header, xsrf_token),
           save_xsrf_token xsrf_token (save_cookie cookie_header xsrf_token w1)))"

section \<open>API handling\<close>

text \<open>
  Both request functions call themselves again after a status 403, without a bound of
  their own.  \<open>fuel\<close> is the number of nested calls the interpreter's stack still admits:
  a call made with none left fails with \<open>RecursionError\<close>, which is what the interpreter
  raises when its recursion limit is exceeded.  What a call returns is stated for
  enough fuel.
\<close>

fun make_api_request ::
    "env \<Rightarrow> nat \<Rightarrow> string \<Rightarrow> string \<Rightarrow> int \<Rightarrow> world
      \<Rightarrow> (error + (json \<times> string \<times> string)) \<times> world" where
  "make_api_request env 0 cookie xsrf_token page w = (Inl RecursionError, w)"
| "make_api_request env (Suc fuel) cookie xsrf_token page w =
     (case send env (SearchRequest page cookie xsrf_token) w of
        (response, w1) \<Rightarrow>
          if status_code response = 403 then
            (case reload_cookie env w1 of
               (Inl e, w2) \<Rightarrow> (Inl e, w2)
             | (Inr (cookie', xsrf_token'), w2) \<Rightarrow>
                 make_api_request env fuel cookie' xsrf_token' page w2)
          else
            (case response_json response of
               Inl e \<Rightarrow> (Inl e, w1)
             | Inr doc \<Rightarrow> (Inr (doc, cookie, xsrf_token), w1)))"

fun get_job_details ::
    "env \<Rightarrow> nat \<Rightarrow> json \<Rightarrow> string \<Rightarrow> string \<Rightarrow> world \<Rightarrow> (error + json) \<times> world" where
  "get_job_details env 0 job_id cookie xsrf_token w = (Inl RecursionError, w)"
| "get_job_details env (Suc fuel) job_id cookie xsrf_token w =
     (case send env (DetailRequest job_id cookie xsrf_token) w of
        (response, w1) \<Rightarrow>
          if status_code response = 403 then
            (case reload_cookie env w1 of
               (Inl e, w2) \<Rightarrow> (Inl e, w2)
             | (Inr (cookie', xsrf_token'), w2) \<Rightarrow>
                 get_job_details env fuel job_id cookie' xsrf_token' w2)
          else if ok response then
            (case response_json response of
               Inl e \<Rightarrow> (Inl e, w1)
             | Inr doc \<Rightarrow> (Inr doc, w1))
          else (Inr JNull, w1))"

section \<open>The jobs table\<close>

text \<open>
  A row is the tuple of the fifteen bound values, in the order of the columns of the
  \<^verbatim>\<open>INSERT\<close> statement; the first is \<^verbatim>\<open>id\<close>, the primary key.  SQLite lets a
  \<^verbatim>\<open>TEXT PRIMARY KEY\<close> be \<^verbatim>\<open>NULL\<close> and never takes two \<^verbatim>\<open>NULL\<close>s for equal.  The
  conversions of column affinity are not modelled: a value is stored as it is bound.
\<close>

definition primary_key :: "job_row \<Rightarrow> sqlv" where
  "primary_key row = (case row of [] \<Rightarrow> Null | v # _ \<Rightarrow> v)"

text \<open>\<^verbatim>\<open>INSERT OR REPLACE INTO jobs\<close>.\<close>

definition insert_or_replace :: "job_row \<Rightarrow> job_row list \<Rightarrow> job_row list" where
  "insert_or_replace row table =
     (if primary_key row = Null then table @ [row]
      else filter (\<lambda>r. primary_key r \<noteq> primary_key row) table @ [row])"

text \<open>How the \<^verbatim>\<open>sqlite3\<close> module binds a Python value to a parameter.\<close>

definition adapt :: "json \<Rightarrow> error + sqlv" where
  "adapt v =
     (case v of
        JNull \<Rightarrow> Inr Null
      | JBool b \<Rightarrow> Inr (SInt (if b then 1 else 0))
      | JInt i \<Rightarrow>
          if - (2 ^ 63) \<le> i \<and> i < 2 ^ 63 then Inr (SInt i) else Inl OverflowError
      | JFloat r \<Rightarrow> Inr (SReal r)
      | JStr s \<Rightarrow> Inr (SText s)
      | JArr xs \<Rightarrow> Inl ProgrammingError
      | JObj kvs \<Rightarrow> Inl ProgrammingError)"

fun adapt_all :: "json list \<Rightarrow> error + sqlv list" where
  "adapt_all [] = Inr []"
| "adapt_all (v # vs) =
     (case adapt v of
        Inl e \<Rightarrow> Inl e
      | Inr x \<Rightarrow> (case adapt_all vs of Inl e \<Rightarrow> Inl e | Inr xs \<Rightarrow> Inr (x # xs)))"

definition execute_insert :: "json list \<Rightarrow> world \<Rightarrow> (error + unit) \<times> world" where
  "execute_insert values w =
     (case adapt_all values of
        Inl e \<Rightarrow> (Inl e, w)
      | Inr row \<Rightarrow>
          (Inr (),
           log_event (Executed row) (w\<lparr>jobs_table := insert_or_replace row (jobs_table w)\<rparr>)))"

definition commit :: "world \<Rightarrow> world" where
  "commit w = log_event Committed (w\<lparr>durable_jobs := jobs_table w\<rparr>)"

definition sleep :: "nat \<Rightarrow> world \<Rightarrow> world" where
  "sleep seconds w = log_event (Slept seconds) w"

section \<open>The crawl\<close>

definition total_pages :: "int \<Rightarrow> int" where
  "total_pages number_records = (number_records + 49) div 50"

text \<open>
  \<^verbatim>\<open>(total + 49) // 50\<close> and \<^verbatim>\<open>range(1, total_pages + 1)\<close> for whatever the response
  holds under \<^verbatim>\<open>numberRecords\<close>: Python computes with an int or a bool and raises
  \<open>TypeError\<close> for everything else (for a float when \<^verbatim>\<open>range\<close> is built).
\<close>

definition page_count :: "json \<Rightarrow> error + int" where
  "page_count number_records =
     (case number_records of
        JInt n \<Rightarrow> Inr (total_pages n)
      | JBool b \<Rightarrow> Inr (total_pages (if b then 1 else 0))
      | _ \<Rightarrow> Inl TypeError)"

text \<open>
  The entries of \<^verbatim>\<open>job_data\<close> before \<^verbatim>\<open>details\<close>, in the order of the dict.  A listing
  that is not a dict has no \<^verbatim>\<open>get\<close>.
\<close>

definition listing_fields :: "json \<Rightarrow> error + (string \<times> json) list" where
  "listing_fields job =
     (case job of
        JObj kvs \<Rightarrow>
          (let get = (\<lambda>k. case map_of kvs k of Some v \<Rightarrow> v | None \<Rightarrow> JNull)
           in Inr
             [(''id'', get ''id''),
              (''creationDate'', get ''creationDate''),
              (''lastModificationDate'', get ''lastModificationDate''),
              (''title'', get ''title''),
              (''description'', get ''description''),
              (''numberOfPosts'', get ''numberOfPosts''),
              (''locationMap'', JStr (json_dumps (get ''locationMap''))),
              (''euresFlag'', get ''euresFlag''),
              (''jobCategoriesCodes'', JStr (json_dumps (get ''jobCategoriesCodes''))),
              (''positionScheduleCodes'', JStr (json_dumps (get ''positionScheduleCodes''))),
              (''positionOfferingCode'', get ''positionOfferingCode''),
              (''employer'', JStr (json_dumps (get ''employer''))),
              (''availableLanguages'', JStr (json_dumps (get ''availableLanguages''))),
              (''score'', get ''score'')])
      | _ \<Rightarrow> Inl AttributeError)"

text \<open>The body of the loop over the listings of a page.\<close>

definition process_job ::
    "env \<Rightarrow> nat \<Rightarrow> json \<Rightarrow> string \<Rightarrow> string \<Rightarrow> world \<Rightarrow> (error + unit) \<times> world" where
  "process_job env fuel job cookie xsrf_token w =
     (case listing_fields job of
        Inl e \<Rightarrow> (Inl e, w)
      | Inr entries \<Rightarrow>
     (case dict_get job ''id'' JNull of
        Inl e \<Rightarrow> (Inl e, w)
      | Inr job_id \<Rightarrow>
     (case get_job_details env fuel job_id cookie xsrf_token w of
        (Inl e, w1) \<Rightarrow> (Inl e, w1)
      | (Inr details, w1) \<Rightarrow>
          execute_insert
            (map snd (entries @ [(''details'', JStr (json_dumps details))])) w1)))"

fun process_jobs ::
    "env \<Rightarrow> nat \<Rightarrow> json list \<Rightarrow> string \<Rightarrow> string \<Rightarrow> world \<Rightarrow> (error + unit) \<times> world" where
  "process_jobs env fuel [] cookie xsrf_token w = (Inr (), w)"
| "process_jobs env fuel (job # jobs) cookie xsrf_token w =
     (case process_job env fuel job cookie xsrf_token w of
        (Inl e, w1) \<Rightarrow> (Inl e, w1)
      | (Inr u, w1) \<Rightarrow> process_jobs env fuel jobs cookie xsrf_token w1)"

text \<open>The body of the loop over the pages, for one page.\<close>

definition crawl_page ::
    "env \<Rightarrow> nat \<Rightarrow> int \<Rightarrow> string \<Rightarrow> string \<Rightarrow> world
      \<Rightarrow> (error + (json list \<times> string \<times> string)) \<times> world" where
  "crawl_page env fuel page cookie xsrf_token w =
     (case make_api_request env fuel cookie xsrf_token page w of
        (Inl e, w1) \<Rightarrow> (Inl e, w1)
      | (Inr (response, cookie', xsrf_token'), w1) \<Rightarrow>
     (case dict_get response ''jvs'' (JArr []) of
        Inl e \<Rightarrow> (Inl e, w1)
      | Inr jvs \<Rightarrow>
     (case py_iter jvs of
        Inl e \<Rightarrow> (Inl e, w1)
      | Inr jobs \<Rightarrow>
     (case process_jobs env fuel jobs cookie' xsrf_token' w1 of
        (Inl e, w2) \<Rightarrow> (Inl e, w2)
      | (Inr u, w2) \<Rightarrow> (Inr (jobs, cookie', xsrf_token'), sleep 1 (commit w2))))))"

fun crawl_pages ::
    "env \<Rightarrow> nat \<Rightarrow> int list \<Rightarrow> string \<Rightarrow> string \<Rightarrow> json list \<Rightarrow> world
      \<Rightarrow> (error + json list) \<times> world" where
  "crawl_pages env fuel [] cookie xsrf_token results w = (Inr results, w)"
| "crawl_pages env fuel (page # pages) cookie xsrf_token results w =
     (case crawl_page env fuel page cookie xsrf_token w of
        (Inl e, w1) \<Rightarrow> (Inl e, w1)
      | (Inr (jobs, cookie', xsrf_token'), w1) \<Rightarrow>
          crawl_pages env fuel pages cookie' xsrf_token' (results @ jobs) w1)"

definition handle_pagination ::
    "env \<Rightarrow> nat \<Rightarrow> string \<Rightarrow> string \<Rightarrow> world \<Rightarrow> (error + json list) \<times> world" where
  "handle_pagination env fuel cookie xsrf_token w =
     (case make_api_request env fuel cookie xsrf_token 1 w of
        (Inl e, w1) \<Rightarrow> (Inl e, w1)
      | (Inr (response, cookie', xsrf_token'), w1) \<Rightarrow>
     (case dict_get response ''numberRecords'' (JInt 0) of
        Inl e \<Rightarrow> (Inl e, w1)
      | Inr number_records \<Rightarrow>
     (case page_count number_records of
        Inl e \<Rightarrow> (Inl e, w1)
      | Inr n \<Rightarrow> crawl_pages env fuel [1..n] cookie' xsrf_token' [] w1)))"

section \<open>Observations on a trace\<close>

definition search_calls :: "event list \<Rightarrow> int list" where
  "search_calls tr =
     concat (map (\<lambda>e. case e of Sent (SearchRequest page c x) \<Rightarrow> [page] | _ \<Rightarrow> []) tr)"

definition detail_calls :: "event list \<Rightarrow> json list" where
  "detail_calls tr =
     concat (map (\<lambda>e. case e of Sent (DetailRequest job_id c x) \<Rightarrow> [job_id] | _ \<Rightarrow> []) tr)"

definition launches :: "event list \<Rightarrow> nat" where
  "launches tr = length (filter (\<lambda>e. e = BrowserLaunched) tr)"

definition commits :: "event list \<Rightarrow> nat" where
  "commits tr = length (filter (\<lambda>e. e = Committed) tr)"

definition upserts :: "event list \<Rightarrow> job_row list" where
  "upserts tr = concat (map (\<lambda>e. case e of Executed row \<Rightarrow> [row] | _ \<Rightarrow> []) tr)"

definition sent :: "event list \<Rightarrow> request list" where
  "sent tr = concat (map (\<lambda>e. case e of Sent req \<Rightarrow> [req] | _ \<Rightarrow> []) tr)"

section \<open>Notions used in the statements\<close>




section \<open>Worlds and upstreams of the examples\<close>

text \<open>The world before the first run: no credential files, an empty table, nothing done.\<close>

definition empty_world :: world where
  "empty_world =
     \<lparr>cookie_file = Missing, xsrf_file = Missing, requests_sent = 0, browser_launches = 0,
      jobs_table = [], durable_jobs = [], trace = []\<rparr>"

text \<open>
  An entry of the performance log as the browser records a response with a
  \<^verbatim>\<open>Set-Cookie\<close> header, and the log of a launch that sets both cookies.
\<close>

definition set_cookie_entry :: "json \<Rightarrow> log_entry" where
  "set_cookie_entry v =
     Some (JObj [(''message'',
       JObj [(''method'', JStr ''Network.responseReceivedExtraInfo''),
             (''params'', JObj [(''headers'', JObj [(''Set-Cookie'', v)])])])])"

definition fresh_logs :: "log_entry list" where
  "fresh_logs =
     [set_cookie_entry (JStr ''EURES_JVSE_SESSIONID=abc123; Path=/''),
      set_cookie_entry (JStr ''XSRF-TOKEN=xyz789; Path=/'')]"

text \<open>
  A stubbed upstream: the \<open>n\<close>-th request of the run gets the \<open>n\<close>-th response of a script,
  whatever it asks; every browser launch captures \<open>fresh_logs\<close>.
\<close>

definition forbidden :: response where
  "forbidden = \<lparr>status_code = 403, body = None\<rparr>"

definition success :: "json \<Rightarrow> response" where
  "success doc = \<lparr>status_code = 200, body = Some doc\<rparr>"

definition scripted :: "response list \<Rightarrow> env" where
  "scripted rs =
     \<lparr>http = (\<lambda>n req. if n < length rs then rs ! n else \<lparr>status_code = 500, body = None\<rparr>),
      browser = (\<lambda>n. fresh_logs)\<rparr>"

text \<open>A response with status 200 whose body is not JSON.\<close>

definition garbled :: response where
  "garbled = \<lparr>status_code = 200, body = None\<rparr>"

text \<open>A search response with two listings.\<close>

definition two_listings :: json where
  "two_listings =
     JObj [(''numberRecords'', JInt 2),
           (''jvs'', JArr [JObj [(''id'', JStr ''A''), (''title'', JStr ''first'')],
                          JObj [(''id'', JStr ''B''), (''title'', JStr ''second'')]])]"

text \<open>
  An upstream that stops accepting the credential \<^verbatim>\<open>stale\<close> after two requests and
  accepts every other credential.
\<close>

definition expiring :: env where
  "expiring =
     \<lparr>http = (\<lambda>n req.
        case req of
          SearchRequest page c x \<Rightarrow> if c = ''stale'' \<and> 2 \<le> n then forbidden else success two_listings
        | DetailRequest job_id c x \<Rightarrow> if c = ''stale'' \<and> 2 \<le> n then forbidden else success (JObj [])),
      browser = (\<lambda>n. fresh_logs)\<rparr>"



section \<open>One step of a request\<close>

declare make_api_request.simps [simp del]
declare get_job_details.simps [simp del]

lemma send_simps [simp]:
  "fst (send env req w) = http env (requests_sent w) req"
  "trace (snd (send env req w)) = trace w @ [Sent req]"
  "requests_sent (snd (send env req w)) = Suc (requests_sent w)"
  "browser_launches (snd (send env req w)) = browser_launches w"
  "cookie_file (snd (send env req w)) = cookie_file w"
  "xsrf_file (snd (send env req w)) = xsrf_file w"
  "jobs_table (snd (send env req w)) = jobs_table w"
  "durable_jobs (snd (send env req w)) = durable_jobs w"
  by (simp_all add: send_def log_event_def)

lemma reload_cookie_ok:
  assumes "extract_cookies_from_logs (browser env (browser_launches w)) = Inr (c, x)"
  shows "fst (reload_cookie env w) = Inr (c, x)"
    and "trace (snd (reload_cookie env w)) = trace w @ [BrowserLaunched, CookieSaved c x, XsrfSaved x]"
    and "requests_sent (snd (reload_cookie env w)) = requests_sent w"
    and "browser_launches (snd (reload_cookie env w)) = Suc (browser_launches w)"
    and "cookie_file (snd (reload_cookie env w))
          = Content (JObj [(''Cookie'', JStr (c @ ''; XSRF-TOKEN='' @ x))])"
    and "xsrf_file (snd (reload_cookie env w)) = Content (strip x)"
    and "jobs_table (snd (reload_cookie env w)) = jobs_table w"
    and "durable_jobs (snd (reload_cookie env w)) = durable_jobs w"
  using assms
  by (simp_all add: reload_cookie_def obtain_cookies_via_selenium_def save_cookie_def
      save_xsrf_token_def log_event_def)

lemma make_api_request_retry:
  assumes "status_code (http env (requests_sent w) (SearchRequest page c x)) = 403"
    and "extract_cookies_from_logs (browser env (browser_launches w)) = Inr (c', x')"
  shows "make_api_request env (Suc fuel) c x page w
         = make_api_request env fuel c' x' page
             (snd (reload_cookie env (snd (send env (SearchRequest page c x) w))))"
proof -
  obtain r w1 where s: "send env (SearchRequest page c x) w = (r, w1)" by (cases "send env (SearchRequest page c x) w")
  have r: "r = http env (requests_sent w) (SearchRequest page c x)"
    using s send_simps(1) [of env "SearchRequest page c x" w] by simp
  have w1: "w1 = snd (send env (SearchRequest page c x) w)" using s by simp
  have "browser_launches w1 = browser_launches w" by (simp add: w1)
  then have e: "extract_cookies_from_logs (browser env (browser_launches w1)) = Inr (c', x')"
    using assms(2) by simp
  obtain w2 where rl: "reload_cookie env w1 = (Inr (c', x'), w2)"
    using reload_cookie_ok(1) [OF e] by (cases "reload_cookie env w1") simp
  have st: "status_code r = 403" using r assms(1) by simp
  have "make_api_request env (Suc fuel) c x page w = make_api_request env fuel c' x' page w2"
    by (simp only: make_api_request.simps s prod.case st rl if_True sum.case simp_thms)
  then show ?thesis using rl w1 by simp
qed

lemma make_api_request_answer:
  assumes "status_code (http env (requests_sent w) (SearchRequest page c x)) \<noteq> 403"
  shows "make_api_request env (Suc fuel) c x page w
         = (case body (http env (requests_sent w) (SearchRequest page c x)) of
              None \<Rightarrow> Inl JSONDecodeError
            | Some doc \<Rightarrow> Inr (doc, c, x),
            snd (send env (SearchRequest page c x) w))"
proof -
  obtain r w1 where s: "send env (SearchRequest page c x) w = (r, w1)" by (cases "send env (SearchRequest page c x) w")
  have r: "r = http env (requests_sent w) (SearchRequest page c x)"
    using s send_simps(1) [of env "SearchRequest page c x" w] by simp
  have st: "status_code r \<noteq> 403" using r assms by simp
  have w1: "w1 = snd (send env (SearchRequest page c x) w)" using s by simp
  have "make_api_request env (Suc fuel) c x page w
        = (case response_json r of Inl e \<Rightarrow> (Inl e, w1) | Inr doc \<Rightarrow> (Inr (doc, c, x), w1))"
    by (simp only: make_api_request.simps s prod.case st if_False)
  then show ?thesis unfolding r w1 by (simp add: response_json_def split: option.split)
qed

lemma get_job_details_retry:
  assumes "status_code (http env (requests_sent w) (DetailRequest job_id c x)) = 403"
    and "extract_cookies_from_logs (browser env (browser_launches w)) = Inr (c', x')"
  shows "get_job_details env (Suc fuel) job_id c x w
         = get_job_details env fuel job_id c' x'
             (snd (reload_cookie env (snd (send env (DetailRequest job_id c x) w))))"
proof -
  obtain r w1 where s: "send env (DetailRequest job_id c x) w = (r, w1)" by (cases "send env (DetailRequest job_id c x) w")
  have r: "r = http env (requests_sent w) (DetailRequest job_id c x)"
    using s send_simps(1) [of env "DetailRequest job_id c x" w] by simp
  have w1: "w1 = snd (send env (DetailRequest job_id c x) w)" using s by simp
  have "browser_launches w1 = browser_launches w" by (simp add: w1)
  then have e: "extract_cookies_from_logs (browser env (browser_launches w1)) = Inr (c', x')"
    using assms(2) by simp
  obtain w2 where rl: "reload_cookie env w1 = (Inr (c', x'), w2)"
    using reload_cookie_ok(1) [OF e] by (cases "reload_cookie env w1") simp
  have st: "status_code r = 403" using r assms(1) by simp
  have "get_job_details env (Suc fuel) job_id c x w = get_job_details env fuel job_id c' x' w2"
    by (simp only: get_job_details.simps s prod.case st rl if_True sum.case simp_thms)
  then show ?thesis using rl w1 by simp
qed

lemma get_job_details_answer:
  assumes "status_code (http env (requests_sent w) (DetailRequest job_id c x)) \<noteq> 403"
  shows "get_job_details env (Suc fuel) job_id c x w
         = (if ok (http env (requests_sent w) (DetailRequest job_id c x))
            then (case body (http env (requests_sent w) (DetailRequest job_id c x)) of
                    None \<Rightarrow> Inl JSONDecodeError
                  | Some doc \<Rightarrow> Inr doc)
            else Inr JNull,
            snd (send env (DetailRequest job_id c x) w))"
proof -
  obtain r w1 where s: "send env (DetailRequest job_id c x) w = (r, w1)" by (cases "send env (DetailRequest job_id c x) w")
  have r: "r = http env (requests_sent w) (DetailRequest job_id c x)"
    using s send_simps(1) [of env "DetailRequest job_id c x" w] by simp
  have st: "status_code r \<noteq> 403" using r assms by simp
  have w1: "w1 = snd (send env (DetailRequest job_id c x) w)" using s by simp
  have "get_job_details env (Suc fuel) job_id c x w
        = (if ok r then (case response_json r of Inl e \<Rightarrow> (Inl e, w1) | Inr doc \<Rightarrow> (Inr doc, w1))
           else (Inr JNull, w1))"
    by (simp only: get_job_details.simps s prod.case st if_False)
  then show ?thesis unfolding r w1 by (simp add: response_json_def split: option.split)
qed

lemma fresh_logs_extract:
  "extract_cookies_from_logs fresh_logs = Inr (''EURES_JVSE_SESSIONID=abc123'', ''xyz789'')"
  by code_simp

lemma launches_append [simp]: "launches (xs @ ys) = launches xs + launches ys"
  by (simp add: launches_def)

lemma search_calls_append [simp]: "search_calls (xs @ ys) = search_calls xs @ search_calls ys"
  by (simp add: search_calls_def)

lemma detail_calls_append [simp]: "detail_calls (xs @ ys) = detail_calls xs @ detail_calls ys"
  by (simp add: detail_calls_def)

lemma commits_append [simp]: "commits (xs @ ys) = commits xs + commits ys"
  by (simp add: commits_def)

lemma upserts_append [simp]: "upserts (xs @ ys) = upserts xs @ upserts ys"
  by (simp add: upserts_def)

lemma search_refresh_count:
  assumes "\<forall>i<k. \<forall>req. status_code (http env (requests_sent w + i) req) = 403"
    and "\<forall>req. status_code (http env (requests_sent w + k) req) \<noteq> 403"
    and "\<forall>i<k. \<exists>cred. extract_cookies_from_logs (browser env (browser_launches w + i)) = Inr cred"
    and "k < fuel"
  shows "launches (trace (snd (make_api_request env fuel c x page w))) = launches (trace w) + k
       \<and> length (search_calls (trace (snd (make_api_request env fuel c x page w))))
           = length (search_calls (trace w)) + k + 1"
  using assms
proof (induction k arbitrary: w c x fuel)
  case 0
  then obtain f where f: "fuel = Suc f" by (cases fuel) auto
  have "status_code (http env (requests_sent w) (SearchRequest page c x)) \<noteq> 403"
    using "0.prems"(2) by simp
  then show ?case
    unfolding f by (simp add: make_api_request_answer launches_def search_calls_def)
next
  case (Suc k)
  then obtain f where f: "fuel = Suc f" and kf: "k < f" by (cases fuel) auto
  have st: "status_code (http env (requests_sent w) (SearchRequest page c x)) = 403"
    using Suc.prems(1) by (metis add.right_neutral zero_less_Suc)
  obtain c' x' where ex: "extract_cookies_from_logs (browser env (browser_launches w)) = Inr (c', x')"
    using Suc.prems(3) by (metis add.right_neutral zero_less_Suc surj_pair)
  define w1 where "w1 = snd (send env (SearchRequest page c x) w)"
  define w2 where "w2 = snd (reload_cookie env w1)"
  have ex1: "extract_cookies_from_logs (browser env (browser_launches w1)) = Inr (c', x')"
    using ex by (simp add: w1_def)
  have rs: "requests_sent w2 = Suc (requests_sent w)"
    and bl: "browser_launches w2 = Suc (browser_launches w)"
    and tr: "trace w2 = trace w @ [Sent (SearchRequest page c x), BrowserLaunched, CookieSaved c' x', XsrfSaved x']"
    unfolding w2_def using reload_cookie_ok [OF ex1] by (simp_all add: w1_def)
  have step: "make_api_request env fuel c x page w = make_api_request env f c' x' page w2"
    unfolding f w2_def w1_def by (rule make_api_request_retry [OF st ex])
  have 1: "\<forall>i<k. \<forall>req. status_code (http env (requests_sent w2 + i) req) = 403"
  proof (intro allI impI)
    fix i req assume "i < k"
    then have "Suc i < Suc k" by simp
    from Suc.prems(1) [rule_format, OF this, of req]
    show "status_code (http env (requests_sent w2 + i) req) = 403" by (simp add: rs)
  qed
  have 2: "\<forall>req. status_code (http env (requests_sent w2 + k) req) \<noteq> 403"
    using Suc.prems(2) by (simp add: rs)
  have 3: "\<forall>i<k. \<exists>cred. extract_cookies_from_logs (browser env (browser_launches w2 + i)) = Inr cred"
  proof (intro allI impI)
    fix i assume "i < k"
    then have "Suc i < Suc k" by simp
    from Suc.prems(3) [rule_format, OF this]
    show "\<exists>cred. extract_cookies_from_logs (browser env (browser_launches w2 + i)) = Inr cred"
      by (simp add: bl)
  qed
  show ?case
    unfolding step using Suc.IH [OF 1 2 3 kf, of c' x']
    by (simp add: tr launches_def search_calls_def)
qed

lemma trace_sleep_commit [simp]: "trace (sleep n (commit w)) = trace w @ [Committed, Slept n]"
  by (simp add: sleep_def commit_def log_event_def)

lemma adapt_all_append:
  "adapt_all vs = Inr row \<Longrightarrow> adapt v = Inr s \<Longrightarrow> adapt_all (vs @ [v]) = Inr (row @ [s])"
  by (induction vs arbitrary: row) (auto split: sum.splits)

section \<open>A crawl without denials\<close>







section \<open>The scan of the log\<close>












section \<open>The number of pages\<close>

lemma total_pages_ceiling: "total_pages n = \<lceil>real_of_int n / 50\<rceil>"
proof -
  define z where "z = (n + 49) div 50"
  have "n + 49 = 50 * z + (n + 49) mod 50" by (simp add: z_def)
  moreover have "0 \<le> (n + 49) mod 50" and "(n + 49) mod 50 < 50" by simp_all
  ultimately have "n \<le> 50 * z" and "50 * z - 50 < n" by linarith+
  then have "real_of_int n \<le> real_of_int (50 * z)"
    and "real_of_int (50 * z - 50) < real_of_int n"
    by (simp_all only: of_int_le_iff of_int_less_iff)
  then have "real_of_int n / 50 \<le> real_of_int z" and "real_of_int z - 1 < real_of_int n / 50"
    by simp_all
  then have "\<lceil>real_of_int n / 50\<rceil> = z" by (intro ceiling_unique) simp_all
  then show ?thesis by (simp add: total_pages_def z_def)
qed

text \<open>
  Claim C5.  For every integer \<open>n \<ge> 0\<close> reported as \<^verbatim>\<open>numberRecords\<close>, the page count
  that \<^verbatim>\<open>handle_pagination\<close> computes is the ceiling of \<open>n / 50\<close>; a total of 0 gives
  0 pages, 50 gives 1 page and 51 gives 2 pages.
\<close>

theorem page_count_is_ceiling:
  "(0 \<le> n \<longrightarrow> page_count (JInt n) = Inr \<lceil>real_of_int n / 50\<rceil>)
   \<and> page_count (JInt 0) = Inr 0
   \<and> page_count (JInt 50) = Inr 1
   \<and> page_count (JInt 51) = Inr 2"
  by (simp add: page_count_def total_pages_ceiling [symmetric]) (simp add: total_pages_def)

theorem page_count_is_ceiling_witness:
  "(0::int) \<le> 60 \<and> page_count (JInt 60) = Inr 2"
  using page_count_is_ceiling [of 60] by simp

section \<open>Insert or replace\<close>





section \<open>The credential files\<close>

lemma strip_id:
  assumes "t \<noteq> []" "\<not> is_space (hd t)" "\<not> is_space (last t)"
  shows "strip t = t"
proof -
  have "dropWhile is_space t = t" using assms by (simp add: dropWhile_eq_self_iff)
  moreover have "dropWhile is_space (rev t) = rev t"
    using assms by (simp add: dropWhile_eq_self_iff hd_rev)
  ultimately show ?thesis by (simp add: strip_def)
qed

lemma universal_newlines_id: "CHR 0x0D \<notin> set t \<Longrightarrow> universal_newlines t = t"
  by (induction t rule: universal_newlines.induct) auto

lemma load_after_save:
  "load_stored_cookie (save_xsrf_token t (save_cookie c t w))
     = JStr (c @ ''; XSRF-TOKEN='' @ t)"
  "load_xsrf_token (save_xsrf_token t w') = JStr (strip (universal_newlines (strip t)))"
  by (simp_all add: load_stored_cookie_def load_xsrf_token_def save_xsrf_token_def
      save_cookie_def log_event_def dict_get_def)

text \<open>
  Claim C8, as the code has it.  Saving a credential and loading it again does not give
  the credential back: the cookie read is the saved cookie followed by
  \<^verbatim>\<open>; XSRF-TOKEN=\<close> and the token.  The token itself comes back exactly when it is not
  empty, has no white space at either end and no carriage return; in general it comes
  back stripped on writing and on reading.  When either file is missing or unreadable
  the stored credential is absent, and nothing is raised.
\<close>

theorem save_then_load:
  assumes "token \<noteq> []" and "\<not> is_space (hd token)" and "\<not> is_space (last token)"
    and "CHR 0x0D \<notin> set token"
  shows "stored_credential (save_xsrf_token token (save_cookie cookie token w))
           = Some (JStr (cookie @ ''; XSRF-TOKEN='' @ token), JStr token)
       \<and> load_xsrf_token (save_xsrf_token t w) = JStr (strip (universal_newlines (strip t)))
       \<and> (cookie_file w' \<in> {Missing, Corrupt} \<or> xsrf_file w' \<in> {Missing, Corrupt}
            \<longrightarrow> stored_credential w' = None)"
proof -
  have "strip (universal_newlines (strip token)) = token"
    using assms by (simp add: strip_id universal_newlines_id)
  then have "stored_credential (save_xsrf_token token (save_cookie cookie token w))
           = Some (JStr (cookie @ ''; XSRF-TOKEN='' @ token), JStr token)"
    using assms(1) by (simp add: stored_credential_def load_after_save)
  moreover have "cookie_file w' \<in> {Missing, Corrupt} \<or> xsrf_file w' \<in> {Missing, Corrupt}
            \<longrightarrow> stored_credential w' = None"
    by (auto simp: stored_credential_def load_stored_cookie_def load_xsrf_token_def Let_def)
  ultimately show ?thesis by (simp add: load_after_save)
qed

theorem save_then_load_witness:
  "stored_credential
     (save_xsrf_token ''xyz789'' (save_cookie ''EURES_JVSE_SESSIONID=abc123'' ''xyz789'' empty_world))
     = Some (JStr ''EURES_JVSE_SESSIONID=abc123; XSRF-TOKEN=xyz789'', JStr ''xyz789'')
   \<and> stored_credential empty_world = None"
  using save_then_load [where token = "''xyz789''" and cookie = "''EURES_JVSE_SESSIONID=abc123''"
      and w = empty_world and w' = empty_world]
  by (simp add: is_space_def empty_world_def)

text \<open>
  The claim as stated fails for the credential of the specification's own example: what
  is loaded after saving it is not the credential saved.
\<close>

theorem save_then_load_counterexample:
  "stored_credential
     (save_xsrf_token ''xyz789'' (save_cookie ''EURES_JVSE_SESSIONID=abc123'' ''xyz789'' empty_world))
     \<noteq> Some (JStr ''EURES_JVSE_SESSIONID=abc123'', JStr ''xyz789'')"
  by (simp add: stored_credential_def load_after_save)

section \<open>Recovery from a denied request\<close>

lemma detail_refresh_count:
  assumes "\<forall>i<k. \<forall>req. status_code (http env (requests_sent w + i) req) = 403"
    and "\<forall>req. status_code (http env (requests_sent w + k) req) \<noteq> 403"
    and "\<forall>i<k. \<exists>cred. extract_cookies_from_logs (browser env (browser_launches w + i)) = Inr cred"
    and "k < fuel"
  shows "launches (trace (snd (get_job_details env fuel job_id c x w))) = launches (trace w) + k
       \<and> length (detail_calls (trace (snd (get_job_details env fuel job_id c x w))))
           = length (detail_calls (trace w)) + k + 1"
  using assms
proof (induction k arbitrary: w c x fuel)
  case 0
  then obtain f where f: "fuel = Suc f" by (cases fuel) auto
  have "status_code (http env (requests_sent w) (DetailRequest job_id c x)) \<noteq> 403"
    using "0.prems"(2) by simp
  then show ?case
    unfolding f by (simp add: get_job_details_answer launches_def detail_calls_def)
next
  case (Suc k)
  then obtain f where f: "fuel = Suc f" and kf: "k < f" by (cases fuel) auto
  have st: "status_code (http env (requests_sent w) (DetailRequest job_id c x)) = 403"
    using Suc.prems(1) by (metis add.right_neutral zero_less_Suc)
  obtain c' x' where ex: "extract_cookies_from_logs (browser env (browser_launches w)) = Inr (c', x')"
    using Suc.prems(3) by (metis add.right_neutral zero_less_Suc surj_pair)
  define w1 where "w1 = snd (send env (DetailRequest job_id c x) w)"
  define w2 where "w2 = snd (reload_cookie env w1)"
  have ex1: "extract_cookies_from_logs (browser env (browser_launches w1)) = Inr (c', x')"
    using ex by (simp add: w1_def)
  have rs: "requests_sent w2 = Suc (requests_sent w)"
    and bl: "browser_launches w2 = Suc (browser_launches w)"
    and tr: "trace w2 = trace w @ [Sent (DetailRequest job_id c x), BrowserLaunched, CookieSaved c' x', XsrfSaved x']"
    unfolding w2_def using reload_cookie_ok [OF ex1] by (simp_all add: w1_def)
  have step: "get_job_details env fuel job_id c x w = get_job_details env f job_id c' x' w2"
    unfolding f w2_def w1_def by (rule get_job_details_retry [OF st ex])
  have 1: "\<forall>i<k. \<forall>req. status_code (http env (requests_sent w2 + i) req) = 403"
  proof (intro allI impI)
    fix i req assume "i < k"
    then have "Suc i < Suc k" by simp
    from Suc.prems(1) [rule_format, OF this, of req]
    show "status_code (http env (requests_sent w2 + i) req) = 403" by (simp add: rs)
  qed
  have 2: "\<forall>req. status_code (http env (requests_sent w2 + k) req) \<noteq> 403"
    using Suc.prems(2) by (simp add: rs)
  have 3: "\<forall>i<k. \<exists>cred. extract_cookies_from_logs (browser env (browser_launches w2 + i)) = Inr cred"
  proof (intro allI impI)
    fix i assume "i < k"
    then have "Suc i < Suc k" by simp
    from Suc.prems(3) [rule_format, OF this]
    show "\<exists>cred. extract_cookies_from_logs (browser env (browser_launches w2 + i)) = Inr cred"
      by (simp add: bl)
  qed
  show ?case
    unfolding step using Suc.IH [OF 1 2 3 kf, of c' x']
    by (simp add: tr launches_def detail_calls_def)
qed

lemma search_refresh_then_success:
  assumes st: "status_code (http env (requests_sent w) (SearchRequest page c x)) = 403"
    and ex: "extract_cookies_from_logs (browser env (browser_launches w)) = Inr (c', x')"
    and st2: "status_code (http env (Suc (requests_sent w)) (SearchRequest page c' x')) = 200"
    and bd: "body (http env (Suc (requests_sent w)) (SearchRequest page c' x')) = Some doc"
  shows "make_api_request env (Suc (Suc fuel)) c x page w
         = (Inr (doc, c', x'),
            snd (send env (SearchRequest page c' x')
              (snd (reload_cookie env (snd (send env (SearchRequest page c x) w))))))"
proof -
  define w1 where "w1 = snd (send env (SearchRequest page c x) w)"
  define w2 where "w2 = snd (reload_cookie env w1)"
  have ex1: "extract_cookies_from_logs (browser env (browser_launches w1)) = Inr (c', x')"
    using ex by (simp add: w1_def)
  have rs: "requests_sent w2 = Suc (requests_sent w)"
    unfolding w2_def using reload_cookie_ok(3) [OF ex1] by (simp add: w1_def)
  have "make_api_request env (Suc (Suc fuel)) c x page w
        = make_api_request env (Suc fuel) c' x' page w2"
    unfolding w2_def w1_def by (rule make_api_request_retry [OF st ex])
  also have "\<dots> = (Inr (doc, c', x'), snd (send env (SearchRequest page c' x') w2))"
    using st2 bd by (subst make_api_request_answer) (simp_all add: rs)
  finally show ?thesis by (simp add: w2_def w1_def)
qed

lemma detail_refresh_then_success:
  assumes st: "status_code (http env (requests_sent w) (DetailRequest job_id c x)) = 403"
    and ex: "extract_cookies_from_logs (browser env (browser_launches w)) = Inr (c', x')"
    and st2: "status_code (http env (Suc (requests_sent w)) (DetailRequest job_id c' x')) = 200"
    and bd: "body (http env (Suc (requests_sent w)) (DetailRequest job_id c' x')) = Some doc"
  shows "get_job_details env (Suc (Suc fuel)) job_id c x w
         = (Inr doc,
            snd (send env (DetailRequest job_id c' x')
              (snd (reload_cookie env (snd (send env (DetailRequest job_id c x) w))))))"
proof -
  define w1 where "w1 = snd (send env (DetailRequest job_id c x) w)"
  define w2 where "w2 = snd (reload_cookie env w1)"
  have ex1: "extract_cookies_from_logs (browser env (browser_launches w1)) = Inr (c', x')"
    using ex by (simp add: w1_def)
  have rs: "requests_sent w2 = Suc (requests_sent w)"
    unfolding w2_def using reload_cookie_ok(3) [OF ex1] by (simp add: w1_def)
  have "get_job_details env (Suc (Suc fuel)) job_id c x w
        = get_job_details env (Suc fuel) job_id c' x' w2"
    unfolding w2_def w1_def by (rule get_job_details_retry [OF st ex])
  also have "\<dots> = (Inr doc, snd (send env (DetailRequest job_id c' x') w2))"
    using st2 bd by (subst get_job_details_answer) (simp_all add: rs ok_def)
  finally show ?thesis by (simp add: w2_def w1_def)
qed

lemma trace_after_refresh:
  assumes "extract_cookies_from_logs (browser env (browser_launches w)) = Inr (c', x')"
  shows "trace (snd (reload_cookie env (snd (send env req w))))
         = trace w @ [Sent req, BrowserLaunched, CookieSaved c' x', XsrfSaved x']"
    and "cookie_file (snd (reload_cookie env (snd (send env req w))))
         = Content (JObj [(''Cookie'', JStr (c' @ ''; XSRF-TOKEN='' @ x'))])"
    and "xsrf_file (snd (reload_cookie env (snd (send env req w)))) = Content (strip x')"
proof -
  have ex1: "extract_cookies_from_logs (browser env (browser_launches (snd (send env req w)))) = Inr (c', x')"
    using assms by simp
  show "trace (snd (reload_cookie env (snd (send env req w))))
         = trace w @ [Sent req, BrowserLaunched, CookieSaved c' x', XsrfSaved x']"
    using reload_cookie_ok(2) [OF ex1] by simp
  show "cookie_file (snd (reload_cookie env (snd (send env req w))))
         = Content (JObj [(''Cookie'', JStr (c' @ ''; XSRF-TOKEN='' @ x'))])"
    using reload_cookie_ok(5) [OF ex1] by simp
  show "xsrf_file (snd (reload_cookie env (snd (send env req w)))) = Content (strip x')"
    using reload_cookie_ok(6) [OF ex1] by simp
qed

text \<open>
  Claim C1.  When the first attempt of a search or detail call is answered with status
  403, the browser then yields a credential, and the attempt made with that credential
  is answered with status 200 and a JSON body, the call returns that body (the search
  call together with the new credential), the browser is launched exactly once, and the
  new credential is written by \<^verbatim>\<open>save_cookie\<close> and \<^verbatim>\<open>save_xsrf_token\<close> before the
  retry is sent.
\<close>

theorem refresh_once_then_success:
  "(status_code (http env (requests_sent w) (SearchRequest page c x)) = 403
    \<and> extract_cookies_from_logs (browser env (browser_launches w)) = Inr (c', x')
    \<and> status_code (http env (Suc (requests_sent w)) (SearchRequest page c' x')) = 200
    \<and> body (http env (Suc (requests_sent w)) (SearchRequest page c' x')) = Some doc
    \<longrightarrow> fst (make_api_request env (Suc (Suc fuel)) c x page w) = Inr (doc, c', x')
      \<and> trace (snd (make_api_request env (Suc (Suc fuel)) c x page w))
          = trace w @ [Sent (SearchRequest page c x), BrowserLaunched,
                       CookieSaved c' x', XsrfSaved x', Sent (SearchRequest page c' x')]
      \<and> launches (trace (snd (make_api_request env (Suc (Suc fuel)) c x page w)))
          = launches (trace w) + 1
      \<and> cookie_file (snd (make_api_request env (Suc (Suc fuel)) c x page w))
          = Content (JObj [(''Cookie'', JStr (c' @ ''; XSRF-TOKEN='' @ x'))])
      \<and> xsrf_file (snd (make_api_request env (Suc (Suc fuel)) c x page w)) = Content (strip x'))
   \<and> (status_code (http env (requests_sent w) (DetailRequest job_id c x)) = 403
    \<and> extract_cookies_from_logs (browser env (browser_launches w)) = Inr (c', x')
    \<and> status_code (http env (Suc (requests_sent w)) (DetailRequest job_id c' x')) = 200
    \<and> body (http env (Suc (requests_sent w)) (DetailRequest job_id c' x')) = Some doc
    \<longrightarrow> fst (get_job_details env (Suc (Suc fuel)) job_id c x w) = Inr doc
      \<and> trace (snd (get_job_details env (Suc (Suc fuel)) job_id c x w))
          = trace w @ [Sent (DetailRequest job_id c x), BrowserLaunched,
                       CookieSaved c' x', XsrfSaved x', Sent (DetailRequest job_id c' x')]
      \<and> launches (trace (snd (get_job_details env (Suc (Suc fuel)) job_id c x w)))
          = launches (trace w) + 1
      \<and> cookie_file (snd (get_job_details env (Suc (Suc fuel)) job_id c x w))
          = Content (JObj [(''Cookie'', JStr (c' @ ''; XSRF-TOKEN='' @ x'))])
      \<and> xsrf_file (snd (get_job_details env (Suc (Suc fuel)) job_id c x w)) = Content (strip x'))"
proof (intro conjI impI; elim conjE)
  assume a: "status_code (http env (requests_sent w) (SearchRequest page c x)) = 403"
    "extract_cookies_from_logs (browser env (browser_launches w)) = Inr (c', x')"
    "status_code (http env (Suc (requests_sent w)) (SearchRequest page c' x')) = 200"
    "body (http env (Suc (requests_sent w)) (SearchRequest page c' x')) = Some doc"
  note r = search_refresh_then_success [OF a, of fuel] trace_after_refresh [OF a(2)]
  show "fst (make_api_request env (Suc (Suc fuel)) c x page w) = Inr (doc, c', x')"
    by (simp add: r)
  show "trace (snd (make_api_request env (Suc (Suc fuel)) c x page w))
          = trace w @ [Sent (SearchRequest page c x), BrowserLaunched,
                       CookieSaved c' x', XsrfSaved x', Sent (SearchRequest page c' x')]"
    by (simp add: r)
  show "launches (trace (snd (make_api_request env (Suc (Suc fuel)) c x page w)))
          = launches (trace w) + 1"
    by (simp add: r launches_def)
  show "cookie_file (snd (make_api_request env (Suc (Suc fuel)) c x page w))
          = Content (JObj [(''Cookie'', JStr (c' @ ''; XSRF-TOKEN='' @ x'))])"
    by (simp add: r)
  show "xsrf_file (snd (make_api_request env (Suc (Suc fuel)) c x page w)) = Content (strip x')"
    by (simp add: r)
next
  assume a: "status_code (http env (requests_sent w) (DetailRequest job_id c x)) = 403"
    "extract_cookies_from_logs (browser env (browser_launches w)) = Inr (c', x')"
    "status_code (http env (Suc (requests_sent w)) (DetailRequest job_id c' x')) = 200"
    "body (http env (Suc (requests_sent w)) (DetailRequest job_id c' x')) = Some doc"
  note r = detail_refresh_then_success [OF a, of fuel] trace_after_refresh [OF a(2)]
  show "fst (get_job_details env (Suc (Suc fuel)) job_id c x w) = Inr doc"
    by (simp add: r)
  show "trace (snd (get_job_details env (Suc (Suc fuel)) job_id c x w))
          = trace w @ [Sent (DetailRequest job_id c x), BrowserLaunched,
                       CookieSaved c' x', XsrfSaved x', Sent (DetailRequest job_id c' x')]"
    by (simp add: r)
  show "launches (trace (snd (get_job_details env (Suc (Suc fuel)) job_id c x w)))
          = launches (trace w) + 1"
    by (simp add: r launches_def)
  show "cookie_file (snd (get_job_details env (Suc (Suc fuel)) job_id c x w))
          = Content (JObj [(''Cookie'', JStr (c' @ ''; XSRF-TOKEN='' @ x'))])"
    by (simp add: r)
  show "xsrf_file (snd (get_job_details env (Suc (Suc fuel)) job_id c x w)) = Content (strip x')"
    by (simp add: r)
qed

theorem refresh_once_then_success_witness:
  "fst (make_api_request (scripted [forbidden, success (JObj [])]) 2 ''stale'' ''old'' 1 empty_world)
     = Inr (JObj [], ''EURES_JVSE_SESSIONID=abc123'', ''xyz789'')
   \<and> launches (trace (snd
        (make_api_request (scripted [forbidden, success (JObj [])]) 2 ''stale'' ''old'' 1 empty_world)))
     = 1
   \<and> fst (get_job_details (scripted [forbidden, success (JObj [])]) 2 (JStr ''42'') ''stale'' ''old''
        empty_world)
     = Inr (JObj [])
   \<and> trace (snd (get_job_details (scripted [forbidden, success (JObj [])]) 2 (JStr ''42'') ''stale''
        ''old'' empty_world))
     = [Sent (DetailRequest (JStr ''42'') ''stale'' ''old''), BrowserLaunched,
        CookieSaved ''EURES_JVSE_SESSIONID=abc123'' ''xyz789'', XsrfSaved ''xyz789'',
        Sent (DetailRequest (JStr ''42'') ''EURES_JVSE_SESSIONID=abc123'' ''xyz789'')]"
  using refresh_once_then_success [of "scripted [forbidden, success (JObj [])]" empty_world 1
      "''stale''" "''old''" "''EURES_JVSE_SESSIONID=abc123''" "''xyz789''" "JObj []" 0 "JStr ''42''"]
  by (simp add: scripted_def forbidden_def success_def empty_world_def fresh_logs_extract
      launches_def numeral_2_eq_2)

text \<open>
  Claim C2, as the code has it.  On a 403 the call launches the browser, saves the new
  credential and calls itself with it; the retry is an ordinary call, which does the
  same again on another 403.  So \<open>k\<close> consecutive 403 responses followed by another
  status cause \<open>k\<close> launches and \<open>k + 1\<close> requests, when the browser yields a credential
  each time and the nesting depth allows \<open>k\<close> retries: there is no bound of one cycle.
\<close>

theorem refresh_on_every_403:
  "(status_code (http env (requests_sent w) (SearchRequest page c x)) = 403
    \<and> extract_cookies_from_logs (browser env (browser_launches w)) = Inr (c', x')
    \<longrightarrow> make_api_request env (Suc fuel) c x page w
        = make_api_request env fuel c' x' page
            (snd (reload_cookie env (snd (send env (SearchRequest page c x) w))))
      \<and> trace (snd (reload_cookie env (snd (send env (SearchRequest page c x) w))))
        = trace w @ [Sent (SearchRequest page c x), BrowserLaunched,
                     CookieSaved c' x', XsrfSaved x'])
   \<and> (status_code (http env (requests_sent w) (DetailRequest job_id c x)) = 403
    \<and> extract_cookies_from_logs (browser env (browser_launches w)) = Inr (c', x')
    \<longrightarrow> get_job_details env (Suc fuel) job_id c x w
        = get_job_details env fuel job_id c' x'
            (snd (reload_cookie env (snd (send env (DetailRequest job_id c x) w))))
      \<and> trace (snd (reload_cookie env (snd (send env (DetailRequest job_id c x) w))))
        = trace w @ [Sent (DetailRequest job_id c x), BrowserLaunched,
                     CookieSaved c' x', XsrfSaved x'])
   \<and> ((\<forall>i<k. \<forall>req. status_code (http env (requests_sent w + i) req) = 403)
    \<and> (\<forall>req. status_code (http env (requests_sent w + k) req) \<noteq> 403)
    \<and> (\<forall>i<k. \<exists>cred. extract_cookies_from_logs (browser env (browser_launches w + i)) = Inr cred)
    \<and> k < depth
    \<longrightarrow> launches (trace (snd (make_api_request env depth c x page w))) = launches (trace w) + k
      \<and> length (search_calls (trace (snd (make_api_request env depth c x page w))))
          = length (search_calls (trace w)) + k + 1
      \<and> launches (trace (snd (get_job_details env depth job_id c x w))) = launches (trace w) + k
      \<and> length (detail_calls (trace (snd (get_job_details env depth job_id c x w))))
          = length (detail_calls (trace w)) + k + 1)"
proof (intro conjI impI; elim conjE)
  assume a: "status_code (http env (requests_sent w) (SearchRequest page c x)) = 403"
    "extract_cookies_from_logs (browser env (browser_launches w)) = Inr (c', x')"
  show "make_api_request env (Suc fuel) c x page w
        = make_api_request env fuel c' x' page
            (snd (reload_cookie env (snd (send env (SearchRequest page c x) w))))"
    by (rule make_api_request_retry [OF a])
  show "trace (snd (reload_cookie env (snd (send env (SearchRequest page c x) w))))
        = trace w @ [Sent (SearchRequest page c x), BrowserLaunched,
                     CookieSaved c' x', XsrfSaved x']"
    by (rule trace_after_refresh(1) [OF a(2)])
next
  assume a: "status_code (http env (requests_sent w) (DetailRequest job_id c x)) = 403"
    "extract_cookies_from_logs (browser env (browser_launches w)) = Inr (c', x')"
  show "get_job_details env (Suc fuel) job_id c x w
        = get_job_details env fuel job_id c' x'
            (snd (reload_cookie env (snd (send env (DetailRequest job_id c x) w))))"
    by (rule get_job_details_retry [OF a])
  show "trace (snd (reload_cookie env (snd (send env (DetailRequest job_id c x) w))))
        = trace w @ [Sent (DetailRequest job_id c x), BrowserLaunched,
                     CookieSaved c' x', XsrfSaved x']"
    by (rule trace_after_refresh(1) [OF a(2)])
next
  assume a: "\<forall>i<k. \<forall>req. status_code (http env (requests_sent w + i) req) = 403"
    "\<forall>req. status_code (http env (requests_sent w + k) req) \<noteq> 403"
    "\<forall>i<k. \<exists>cred. extract_cookies_from_logs (browser env (browser_launches w + i)) = Inr cred"
    "k < depth"
  note s = search_refresh_count [OF a, of c x page] and d = detail_refresh_count [OF a, of job_id c x]
  show "launches (trace (snd (make_api_request env depth c x page w))) = launches (trace w) + k"
    using s by simp
  show "length (search_calls (trace (snd (make_api_request env depth c x page w))))
          = length (search_calls (trace w)) + k + 1"
    using s by simp
  show "launches (trace (snd (get_job_details env depth job_id c x w))) = launches (trace w) + k"
    using d by simp
  show "length (detail_calls (trace (snd (get_job_details env depth job_id c x w))))
          = length (detail_calls (trace w)) + k + 1"
    using d by simp
qed

theorem refresh_on_every_403_witness:
  "launches (trace (snd (make_api_request (scripted [forbidden, forbidden, success (JObj [])]) 3
       ''stale'' ''old'' 1 empty_world))) = 2
   \<and> launches (trace (snd (get_job_details (scripted [forbidden, forbidden, success (JObj [])]) 3
       (JStr ''42'') ''stale'' ''old'' empty_world))) = 2
   \<and> trace (snd (reload_cookie (scripted [forbidden, forbidden, success (JObj [])])
        (snd (send (scripted [forbidden, forbidden, success (JObj [])])
           (SearchRequest 1 ''stale'' ''old'') empty_world))))
     = [Sent (SearchRequest 1 ''stale'' ''old''), BrowserLaunched,
        CookieSaved ''EURES_JVSE_SESSIONID=abc123'' ''xyz789'', XsrfSaved ''xyz789'']"
proof -
  let ?env = "scripted [forbidden, forbidden, success (JObj [])]"
  have 1: "\<forall>i<2. \<forall>req. status_code (http ?env (requests_sent empty_world + i) req) = 403"
    by (simp add: scripted_def forbidden_def empty_world_def less_Suc_eq numeral_2_eq_2)
  have 2: "\<forall>req. status_code (http ?env (requests_sent empty_world + 2) req) \<noteq> 403"
    by (simp add: scripted_def success_def empty_world_def)
  have 3: "\<forall>i<2. \<exists>cred. extract_cookies_from_logs (browser ?env (browser_launches empty_world + i)) = Inr cred"
    by (simp add: scripted_def fresh_logs_extract)
  have 4: "status_code (http ?env (requests_sent empty_world) (SearchRequest 1 ''stale'' ''old'')) = 403"
    by (simp add: scripted_def forbidden_def empty_world_def)
  have 5: "extract_cookies_from_logs (browser ?env (browser_launches empty_world))
           = Inr (''EURES_JVSE_SESSIONID=abc123'', ''xyz789'')"
    by (simp add: scripted_def fresh_logs_extract)
  show ?thesis
    using refresh_on_every_403 [of ?env empty_world 1 "''stale''" "''old''"
        "''EURES_JVSE_SESSIONID=abc123''" "''xyz789''" 0 "JStr ''42''" 2 3] 1 2 3 4 5
    by (simp add: empty_world_def launches_def)
qed

text \<open>
  The claim as stated fails when the upstream answers 403 twice: one call launches the
  browser twice and sends three requests.
\<close>

theorem one_refresh_per_call_counterexample:
  "launches (trace (snd (make_api_request (scripted [forbidden, forbidden, success (JObj [])]) 3
       ''stale'' ''old'' 1 empty_world))) = 2
   \<and> search_calls (trace (snd (make_api_request (scripted [forbidden, forbidden, success (JObj [])]) 3
       ''stale'' ''old'' 1 empty_world))) = [1, 1, 1]"
  by code_simp

section \<open>Extraction of the credential\<close>




section \<open>Detail requests\<close>

lemma process_job_failed_detail:
  assumes st: "400 \<le> status_code (http env (requests_sent w) (DetailRequest job_id c x))"
      "status_code (http env (requests_sent w) (DetailRequest job_id c x)) < 600"
      "status_code (http env (requests_sent w) (DetailRequest job_id c x)) \<noteq> 403"
  shows "get_job_details env (Suc fuel) job_id c x w
         = (Inr JNull, snd (send env (DetailRequest job_id c x) w))"
  using st by (simp add: get_job_details_answer ok_def)

text \<open>
  Claim C9, as the code has it.  When a detail request is answered with a client or
  server error status other than 403, \<^verbatim>\<open>get_job_details\<close> returns \<^verbatim>\<open>None\<close>, which
  \<^verbatim>\<open>json.dumps\<close> writes as \<^verbatim>\<open>null\<close>; the listing is inserted with that text in its
  \<^verbatim>\<open>details\<close> column and the loop goes on with the rest of the page.
\<close>

theorem failed_detail_is_null:
  "400 \<le> status_code (http env (requests_sent w) (DetailRequest job_id c x))
   \<and> status_code (http env (requests_sent w) (DetailRequest job_id c x)) < 600
   \<and> status_code (http env (requests_sent w) (DetailRequest job_id c x)) \<noteq> 403
   \<longrightarrow> get_job_details env (Suc fuel) job_id c x w
         = (Inr JNull, snd (send env (DetailRequest job_id c x) w))
     \<and> json_dumps JNull = ''null''
     \<and> (listing_fields job = Inr entries \<and> dict_get job ''id'' JNull = Inr job_id
        \<and> adapt_all (map snd entries) = Inr row
        \<longrightarrow> process_jobs env (Suc fuel) (job # jobs) c x w
            = process_jobs env (Suc fuel) jobs c x
                (log_event (Executed (row @ [SText ''null'']))
                  ((snd (send env (DetailRequest job_id c x) w))
                     \<lparr>jobs_table := insert_or_replace (row @ [SText ''null'']) (jobs_table w)\<rparr>)))"
proof (intro impI conjI; elim conjE)
  assume st: "400 \<le> status_code (http env (requests_sent w) (DetailRequest job_id c x))"
      "status_code (http env (requests_sent w) (DetailRequest job_id c x)) < 600"
      "status_code (http env (requests_sent w) (DetailRequest job_id c x)) \<noteq> 403"
  show g: "get_job_details env (Suc fuel) job_id c x w
         = (Inr JNull, snd (send env (DetailRequest job_id c x) w))"
    by (rule process_job_failed_detail [OF st])
  show "json_dumps JNull = ''null''" by simp
  assume j: "listing_fields job = Inr entries" "dict_get job ''id'' JNull = Inr job_id"
    "adapt_all (map snd entries) = Inr row"
  have "adapt_all (map snd entries @ [JStr ''null'']) = Inr (row @ [SText ''null''])"
    using j(3) by (rule adapt_all_append) (simp add: adapt_def)
  then have "process_job env (Suc fuel) job c x w
        = (Inr (),
           log_event (Executed (row @ [SText ''null'']))
                  ((snd (send env (DetailRequest job_id c x) w))
                     \<lparr>jobs_table := insert_or_replace (row @ [SText ''null'']) (jobs_table w)\<rparr>))"
    using j(1,2) g by (simp add: process_job_def execute_insert_def)
  then show "process_jobs env (Suc fuel) (job # jobs) c x w
            = process_jobs env (Suc fuel) jobs c x
                (log_event (Executed (row @ [SText ''null'']))
                  ((snd (send env (DetailRequest job_id c x) w))
                     \<lparr>jobs_table := insert_or_replace (row @ [SText ''null'']) (jobs_table w)\<rparr>))"
    by simp
qed

theorem failed_detail_is_null_witness:
  "get_job_details (scripted [\<lparr>status_code = 404, body = None\<rparr>]) 1 (JStr ''A'') ''c'' ''x'' empty_world
     = (Inr JNull,
        snd (send (scripted [\<lparr>status_code = 404, body = None\<rparr>])
               (DetailRequest (JStr ''A'') ''c'' ''x'') empty_world))
   \<and> upserts (trace (snd (process_jobs (scripted [\<lparr>status_code = 404, body = None\<rparr>]) 1
        [JObj [(''id'', JStr ''A'')]] ''c'' ''x'' empty_world)))
     = [[SText ''A'', Null, Null, Null, Null, Null, SText ''null'', Null, SText ''null'',
         SText ''null'', Null, SText ''null'', SText ''null'', Null, SText ''null'']]"
  using failed_detail_is_null [where env = "scripted [\<lparr>status_code = 404, body = None\<rparr>]"
      and w = empty_world and job_id = "JStr ''A''" and c = "''c''" and x = "''x''" and fuel = 0
      and job = "JObj [(''id'', JStr ''A'')]" and jobs = "[]"
      and entries = "[(''id'', JStr ''A''), (''creationDate'', JNull),
         (''lastModificationDate'', JNull), (''title'', JNull), (''description'', JNull),
         (''numberOfPosts'', JNull), (''locationMap'', JStr ''null''), (''euresFlag'', JNull),
         (''jobCategoriesCodes'', JStr ''null''), (''positionScheduleCodes'', JStr ''null''),
         (''positionOfferingCode'', JNull), (''employer'', JStr ''null''),
         (''availableLanguages'', JStr ''null''), (''score'', JNull)]"
      and row = "[SText ''A'', Null, Null, Null, Null, Null, SText ''null'', Null, SText ''null'',
         SText ''null'', Null, SText ''null'', SText ''null'', Null]"]
  by (simp add: scripted_def empty_world_def listing_fields_def dict_get_def adapt_def
      upserts_def log_event_def)

text \<open>
  The claim as stated fails for a malformed body: after status 200 with a body that is
  not JSON the call raises, the listing is not inserted, the second listing of the page
  is never requested and the page is not committed.
\<close>

theorem failed_detail_counterexample:
  "fst (get_job_details (scripted [garbled]) 1 (JStr ''A'') ''c'' ''x'' empty_world)
     = Inl JSONDecodeError
   \<and> fst (crawl_page (scripted [success two_listings, garbled]) 1 1 ''c'' ''x'' empty_world)
     = Inl JSONDecodeError
   \<and> detail_calls (trace (snd
        (crawl_page (scripted [success two_listings, garbled]) 1 1 ''c'' ''x'' empty_world)))
     = [JStr ''A'']
   \<and> upserts (trace (snd
        (crawl_page (scripted [success two_listings, garbled]) 1 1 ''c'' ''x'' empty_world)))
     = []
   \<and> commits (trace (snd
        (crawl_page (scripted [success two_listings, garbled]) 1 1 ''c'' ''x'' empty_world)))
     = 0"
  by code_simp

text \<open>
  Claim C3.  \<^verbatim>\<open>make_api_request\<close> returns the credential in effect, but
  \<^verbatim>\<open>get_job_details\<close> returns the document alone.  When the credential expires during
  a page, the detail call for the first listing refreshes it, and the detail call for
  the second listing is sent with the expired credential again and launches the
  browser a second time.
\<close>

theorem refreshed_credential_dropped:
  "sent (trace (snd (handle_pagination expiring 2 ''stale'' ''old'' empty_world)))
     = [SearchRequest 1 ''stale'' ''old'',
        SearchRequest 1 ''stale'' ''old'',
        DetailRequest (JStr ''A'') ''stale'' ''old'',
        DetailRequest (JStr ''A'') ''EURES_JVSE_SESSIONID=abc123'' ''xyz789'',
        DetailRequest (JStr ''B'') ''stale'' ''old'',
        DetailRequest (JStr ''B'') ''EURES_JVSE_SESSIONID=abc123'' ''xyz789'']
   \<and> launches (trace (snd (handle_pagination expiring 2 ''stale'' ''old'' empty_world))) = 2"
  by code_simp

section \<open>The crawl as a whole\<close>

lemma handle_pagination_no_total:
  assumes "make_api_request env fuel c x 1 w = (Inr (JObj kvs, c', x'), w1)"
    and "map_of kvs ''numberRecords'' = None"
  shows "handle_pagination env fuel c x w = (Inr [], w1)"
  using assms by (simp add: handle_pagination_def dict_get_def page_count_def total_pages_def)

lemma crawl_page_no_jvs:
  assumes "make_api_request env fuel c x page w = (Inr (JObj kvs, c', x'), w1)"
    and "map_of kvs ''jvs'' = None"
  shows "crawl_page env fuel page c x w = (Inr ([], c', x'), sleep 1 (commit w1))"
  using assms by (simp add: crawl_page_def dict_get_def py_iter_def)

text \<open>
  Claim C10.  When the document returned by the first search call has no
  \<^verbatim>\<open>numberRecords\<close> key, \<^verbatim>\<open>handle_pagination\<close> returns the empty list and leaves the
  world as the search call left it: no page is crawled, nothing is inserted or
  committed.  When the document returned for a page has no \<^verbatim>\<open>jvs\<close> key, the page is
  empty: no detail request and no insertion are made for it.
\<close>

theorem missing_keys_mean_nothing_to_do:
  "(make_api_request env fuel c x 1 w = (Inr (JObj kvs, c', x'), w1)
    \<and> map_of kvs ''numberRecords'' = None
    \<longrightarrow> handle_pagination env fuel c x w = (Inr [], w1))
   \<and> (make_api_request env fuel c x page w = (Inr (JObj kvs, c', x'), w1)
    \<and> map_of kvs ''jvs'' = None
    \<longrightarrow> crawl_page env fuel page c x w = (Inr ([], c', x'), sleep 1 (commit w1))
      \<and> detail_calls (trace (sleep 1 (commit w1))) = detail_calls (trace w1)
      \<and> upserts (trace (sleep 1 (commit w1))) = upserts (trace w1)
      \<and> jobs_table (sleep 1 (commit w1)) = jobs_table w1)"
  by (auto simp: handle_pagination_no_total crawl_page_no_jvs detail_calls_def upserts_def
      sleep_def commit_def log_event_def)

theorem missing_keys_mean_nothing_to_do_witness:
  "fst (handle_pagination (scripted [success (JObj [])]) 1 ''c'' ''x'' empty_world) = Inr []
   \<and> trace (snd (handle_pagination (scripted [success (JObj [])]) 1 ''c'' ''x'' empty_world))
     = [Sent (SearchRequest 1 ''c'' ''x'')]
   \<and> fst (crawl_page (scripted [success (JObj [])]) 1 1 ''c'' ''x'' empty_world)
     = Inr ([], ''c'', ''x'')
   \<and> trace (snd (crawl_page (scripted [success (JObj [])]) 1 1 ''c'' ''x'' empty_world))
     = [Sent (SearchRequest 1 ''c'' ''x''), Committed, Slept 1]"
proof -
  let ?env = "scripted [success (JObj [])]"
  have m: "make_api_request ?env 1 ''c'' ''x'' 1 empty_world
           = (Inr (JObj [], ''c'', ''x''), snd (send ?env (SearchRequest 1 ''c'' ''x'') empty_world))"
    unfolding One_nat_def
    by (subst make_api_request_answer) (simp_all add: scripted_def success_def empty_world_def)
  show ?thesis
    using missing_keys_mean_nothing_to_do [of ?env 1 "''c''" "''x''" empty_world "[]" "''c''" "''x''"
        "snd (send ?env (SearchRequest 1 ''c'' ''x'') empty_world)" 1] m
    by (simp add: empty_world_def)
qed








end
